theory Spec2Isabelle
  imports Complex_Main "HOL-Library.Word" "HOL-Library.Code_Target_Numeral"
begin

unbundle bit_operations_syntax

section \<open>Strings and numbers of the runtime\<close>

text \<open>
  A JavaScript string is represented by the bytes of its UTF-8 encoding, so \<open>string\<close>
  (a list of 8-bit characters) stands for a well-formed string, \<open>Buffer.from(s)\<close> is the
  list itself, and a character outside ASCII is the two to four bytes of its encoding.
\<close>

definition Buffer_from :: "string \<Rightarrow> string" where
  "Buffer_from s = s"

text \<open>
  The characters \<open>String.prototype.trim\<close> and the string-to-number conversion strip:
  WhiteSpace and LineTerminator of ECMAScript (TAB, LF, VT, FF, CR, SP, U+00A0, U+1680,
  U+2000 to U+200A, U+2028, U+2029, U+202F, U+205F, U+3000, U+FEFF), each by its encoding.
\<close>

definition white_space :: "string list" where
  "white_space =
     [[CHR 0x09], [CHR 0x0A], [CHR 0x0B], [CHR 0x0C], [CHR 0x0D], [CHR 0x20],
      [CHR 0xC2, CHR 0xA0], [CHR 0xE1, CHR 0x9A, CHR 0x80]] @
     map (\<lambda>b. [CHR 0xE2, CHR 0x80, char_of b])
       [0x80, 0x81, 0x82, 0x83, 0x84, 0x85, 0x86, 0x87, 0x88, 0x89, 0x8A, 0xA8, 0xA9, 0xAF :: nat] @
     [[CHR 0xE2, CHR 0x81, CHR 0x9F], [CHR 0xE3, CHR 0x80, CHR 0x80],
      [CHR 0xEF, CHR 0xBB, CHR 0xBF]]"

definition strip_ws_start :: "string \<Rightarrow> string option" where
  "strip_ws_start s =
     map_option (\<lambda>w. drop (length w) s) (find (\<lambda>w. take (length w) s = w) white_space)"

definition strip_ws_end :: "string \<Rightarrow> string option" where
  "strip_ws_end s =
     map_option (\<lambda>w. take (length s - length w) s)
       (find (\<lambda>w. length w \<le> length s \<and> drop (length s - length w) s = w) white_space)"

fun strip_all :: "(string \<Rightarrow> string option) \<Rightarrow> nat \<Rightarrow> string \<Rightarrow> string" where
  "strip_all f 0 s = s"
| "strip_all f (Suc n) s = (case f s of None \<Rightarrow> s | Some r \<Rightarrow> strip_all f n r)"

definition trim :: "string \<Rightarrow> string" where
  "trim s = (let t = strip_all strip_ws_start (length s) s in strip_all strip_ws_end (length t) t)"

text \<open>
  A Number of the runtime. A finite value is kept as the rational it denotes: the rounding
  of a decimal literal and of a difference to the nearest double is not modelled. When the
  timestamp denotes a whole number below \<open>2^53\<close> (the platform sends whole seconds) the
  conversion and the subtraction of the runtime are exact, and the model computes what the
  runtime computes.
\<close>

datatype js_number = NaN | PosInfinity | NegInfinity | Finite rat

fun js_neg :: "js_number \<Rightarrow> js_number" where
  "js_neg NaN = NaN"
| "js_neg PosInfinity = NegInfinity"
| "js_neg NegInfinity = PosInfinity"
| "js_neg (Finite x) = Finite (- x)"

fun js_sub :: "js_number \<Rightarrow> js_number \<Rightarrow> js_number" where
  "js_sub (Finite x) (Finite y) = Finite (x - y)"
| "js_sub NaN _ = NaN"
| "js_sub _ NaN = NaN"
| "js_sub PosInfinity PosInfinity = NaN"
| "js_sub NegInfinity NegInfinity = NaN"
| "js_sub PosInfinity _ = PosInfinity"
| "js_sub NegInfinity _ = NegInfinity"
| "js_sub (Finite x) PosInfinity = NegInfinity"
| "js_sub (Finite x) NegInfinity = PosInfinity"

fun Math_abs :: "js_number \<Rightarrow> js_number" where
  "Math_abs NaN = NaN"
| "Math_abs PosInfinity = PosInfinity"
| "Math_abs NegInfinity = PosInfinity"
| "Math_abs (Finite x) = Finite \<bar>x\<bar>"

text \<open>The comparison \<open>a > b\<close>: false as soon as an operand is NaN.\<close>

fun js_gt :: "js_number \<Rightarrow> js_number \<Rightarrow> bool" where
  "js_gt (Finite x) (Finite y) = (x > y)"
| "js_gt NaN _ = False"
| "js_gt _ NaN = False"
| "js_gt PosInfinity PosInfinity = False"
| "js_gt PosInfinity _ = True"
| "js_gt NegInfinity _ = False"
| "js_gt (Finite x) PosInfinity = False"
| "js_gt (Finite x) NegInfinity = True"

subsection \<open>The conversion \<open>Number(string)\<close>\<close>

definition is_digit :: "char \<Rightarrow> bool" where
  "is_digit c = (48 \<le> (of_char c :: nat) \<and> (of_char c :: nat) \<le> 57)"

text \<open>The value of a digit of a radix up to sixteen; sixteen for any other character.\<close>

definition digit_val :: "char \<Rightarrow> nat" where
  "digit_val c =
     (let n = (of_char c :: nat) in
      if 48 \<le> n \<and> n \<le> 57 then n - 48
      else if 97 \<le> n \<and> n \<le> 102 then n - 87
      else if 65 \<le> n \<and> n \<le> 70 then n - 55
      else 16)"

definition digits_val :: "nat \<Rightarrow> string \<Rightarrow> nat" where
  "digits_val radix ds = foldl (\<lambda>a c. radix * a + digit_val c) 0 ds"

text \<open>\<open>0x\<close>, \<open>0o\<close> and \<open>0b\<close> literals: digits of the radix, at least one, and no sign.\<close>

definition non_decimal :: "nat \<Rightarrow> string \<Rightarrow> js_number" where
  "non_decimal radix ds =
     (if ds \<noteq> [] \<and> list_all (\<lambda>c. digit_val c < radix) ds
      then Finite (of_nat (digits_val radix ds)) else NaN)"

text \<open>The exponent part: nothing, or \<open>e\<close> or \<open>E\<close>, an optional sign and digits to the end.\<close>

definition exponent_part :: "string \<Rightarrow> int option" where
  "exponent_part r =
     (case r of
        [] \<Rightarrow> Some 0
      | c # r' \<Rightarrow>
          if c = CHR ''e'' \<or> c = CHR ''E'' then
            (let neg = (case r' of s # _ \<Rightarrow> s = CHR ''-'' | [] \<Rightarrow> False);
                 ds = (case r' of s # d \<Rightarrow> if s = CHR ''+'' \<or> s = CHR ''-'' then d else r' | [] \<Rightarrow> [])
             in if ds \<noteq> [] \<and> list_all is_digit ds
                then Some (if neg then - int (digits_val 10 ds) else int (digits_val 10 ds))
                else None)
          else None)"

definition pow10 :: "int \<Rightarrow> rat" where
  "pow10 e = (if 0 \<le> e then 10 ^ nat e else 1 / 10 ^ nat (- e))"

text \<open>
  An unsigned decimal literal: digits, an optional point and digits, with a digit on one
  side of the point at least, and the exponent part.
\<close>

definition unsigned_decimal :: "string \<Rightarrow> js_number" where
  "unsigned_decimal u =
     (let ip = takeWhile is_digit u;
          r1 = dropWhile is_digit u;
          fp = (case r1 of c # r \<Rightarrow> if c = CHR ''.'' then takeWhile is_digit r else [] | [] \<Rightarrow> []);
          r2 = (case r1 of c # r \<Rightarrow> if c = CHR ''.'' then dropWhile is_digit r else r1 | [] \<Rightarrow> [])
      in if ip = [] \<and> fp = [] then NaN
         else (case exponent_part r2 of
                 None \<Rightarrow> NaN
               | Some e \<Rightarrow>
                   Finite ((of_nat (digits_val 10 ip) +
                            of_nat (digits_val 10 fp) / 10 ^ length fp) * pow10 e)))"

definition str_decimal :: "string \<Rightarrow> js_number" where
  "str_decimal t =
     (case t of
        [] \<Rightarrow> NaN
      | c # u \<Rightarrow>
          if c = CHR ''+'' then (if u = ''Infinity'' then PosInfinity else unsigned_decimal u)
          else if c = CHR ''-'' then
            (if u = ''Infinity'' then NegInfinity else js_neg (unsigned_decimal u))
          else if t = ''Infinity'' then PosInfinity else unsigned_decimal t)"

definition js_Number :: "string \<Rightarrow> js_number" where
  "js_Number s =
     (let t = trim s in
      if t = [] then Finite 0
      else if take 2 t = ''0x'' \<or> take 2 t = ''0X'' then non_decimal 16 (drop 2 t)
      else if take 2 t = ''0o'' \<or> take 2 t = ''0O'' then non_decimal 8 (drop 2 t)
      else if take 2 t = ''0b'' \<or> take 2 t = ''0B'' then non_decimal 2 (drop 2 t)
      else str_decimal t)"

text \<open>\<open>Math.floor(Date.now() / 1000)\<close>, the clock being a whole number of milliseconds.\<close>

definition now_seconds :: "int \<Rightarrow> js_number" where
  "now_seconds dateNow = Finite (of_int (dateNow div 1000))"

section \<open>The keyed hash of the crypto module\<close>

text \<open>
  \<open>crypto.createHmac('sha256', key).update(msg).digest('hex')\<close>: HMAC (RFC 2104) over
  SHA-256 (FIPS 180-4) on the bytes of key and message, in lowercase hexadecimal.
\<close>

type_synonym w32 = "32 word"

definition rotr :: "nat \<Rightarrow> w32 \<Rightarrow> w32" where
  "rotr n x = (drop_bit n x) OR (push_bit (32 - n) x)"

definition Ch :: "w32 \<Rightarrow> w32 \<Rightarrow> w32 \<Rightarrow> w32" where
  "Ch x y z = (x AND y) XOR (NOT x AND z)"

definition Maj :: "w32 \<Rightarrow> w32 \<Rightarrow> w32 \<Rightarrow> w32" where
  "Maj x y z = (x AND y) XOR (x AND z) XOR (y AND z)"

definition bsig0 :: "w32 \<Rightarrow> w32" where
  "bsig0 x = rotr 2 x XOR rotr 13 x XOR rotr 22 x"

definition bsig1 :: "w32 \<Rightarrow> w32" where
  "bsig1 x = rotr 6 x XOR rotr 11 x XOR rotr 25 x"

definition ssig0 :: "w32 \<Rightarrow> w32" where
  "ssig0 x = rotr 7 x XOR rotr 18 x XOR drop_bit 3 x"

definition ssig1 :: "w32 \<Rightarrow> w32" where
  "ssig1 x = rotr 17 x XOR rotr 19 x XOR drop_bit 10 x"

text \<open>The round constants and the initial hash value, in decimal.\<close>

definition K256 :: "w32 list" where
  "K256 = map word_of_nat
     [1116352408, 1899447441, 3049323471, 3921009573, 961987163, 1508970993, 2453635748,
      2870763221, 3624381080, 310598401, 607225278, 1426881987, 1925078388, 2162078206,
      2614888103, 3248222580, 3835390401, 4022224774, 264347078, 604807628, 770255983,
      1249150122, 1555081692, 1996064986, 2554220882, 2821834349, 2952996808, 3210313671,
      3336571891, 3584528711, 113926993, 338241895, 666307205, 773529912, 1294757372,
      1396182291, 1695183700, 1986661051, 2177026350, 2456956037, 2730485921, 2820302411,
      3259730800, 3345764771, 3516065817, 3600352804, 4094571909, 275423344, 430227734,
      506948616, 659060556, 883997877, 958139571, 1322822218, 1537002063, 1747873779,
      1955562222, 2024104815, 2227730452, 2361852424, 2428436474, 2756734187, 3204031479,
      3329325298]"

definition H0 :: "w32 list" where
  "H0 = map word_of_nat
     [1779033703, 3144134277, 1013904242, 2773480762, 1359893119, 2600822924, 528734635,
      1541459225]"

text \<open>The message schedule: \<open>sched 48\<close> extends the sixteen words of a block to sixty-four.\<close>

fun sched :: "nat \<Rightarrow> w32 list \<Rightarrow> w32 list" where
  "sched 0 w = w"
| "sched (Suc n) w =
     sched n (w @ [ssig1 (w ! (length w - 2)) + w ! (length w - 7) +
                   ssig0 (w ! (length w - 15)) + w ! (length w - 16)])"

definition round1 :: "w32 list \<Rightarrow> w32 \<times> w32 \<Rightarrow> w32 list" where
  "round1 s kw =
     (let a = s ! 0; b = s ! 1; c = s ! 2; d = s ! 3; e = s ! 4; f = s ! 5; g = s ! 6; h = s ! 7;
          t1 = h + bsig1 e + Ch e f g + fst kw + snd kw;
          t2 = bsig0 a + Maj a b c
      in [t1 + t2, a, b, c, d + t1, e, f, g])"

definition compress :: "w32 list \<Rightarrow> w32 list \<Rightarrow> w32 list" where
  "compress hs blk = map2 (+) hs (foldl round1 hs (zip K256 (sched 48 blk)))"

fun be32 :: "string \<Rightarrow> w32 list" where
  "be32 (a # b # c # d # r) =
     (push_bit 24 (word_of_nat (of_char a)) OR push_bit 16 (word_of_nat (of_char b)) OR
      push_bit 8 (word_of_nat (of_char c)) OR word_of_nat (of_char d)) # be32 r"
| "be32 _ = []"

fun chunks :: "nat \<Rightarrow> 'a list \<Rightarrow> 'a list list" where
  "chunks n [] = []"
| "chunks n xs = (if n = 0 then [xs] else take n xs # chunks n (drop n xs))"

fun be_bytes :: "nat \<Rightarrow> nat \<Rightarrow> string" where
  "be_bytes 0 n = []"
| "be_bytes (Suc k) n = be_bytes k (n div 256) @ [char_of n]"

definition pad :: "string \<Rightarrow> string" where
  "pad m = m @ [CHR 0x80] @ replicate ((119 - length m mod 64) mod 64) (CHR 0x00) @
           be_bytes 8 (8 * length m)"

definition sha256 :: "string \<Rightarrow> string" where
  "sha256 m =
     concat (map (\<lambda>w. be_bytes 4 (unat w)) (foldl compress H0 (map be32 (chunks 64 (pad m)))))"

definition hmac_sha256 :: "string \<Rightarrow> string \<Rightarrow> string" where
  "hmac_sha256 key msg =
     (let k0 = (if length key > 64 then sha256 key else key);
          k = k0 @ replicate (64 - length k0) (CHR 0x00);
          ipad = map (\<lambda>c. char_of (unat ((of_char c :: 8 word) XOR 0x36))) k;
          opad = map (\<lambda>c. char_of (unat ((of_char c :: 8 word) XOR 0x5c))) k
      in sha256 (opad @ sha256 (ipad @ msg)))"

definition hexdigit :: "nat \<Rightarrow> char" where
  "hexdigit n = (''0123456789abcdef'' ! n)"

definition hex :: "string \<Rightarrow> string" where
  "hex bs = concat (map (\<lambda>c. [hexdigit (of_char c div 16), hexdigit (of_char c mod 16)]) bs)"

definition createHmac_sha256_hex :: "string \<Rightarrow> string \<Rightarrow> string" where
  "createHmac_sha256_hex key msg = hex (hmac_sha256 key msg)"

section \<open>The signature verifier (\<open>utils.ts\<close>, and its copies in the route files)\<close>

datatype exn = RangeError string | TypeError string | Error string

text \<open>
  \<open>crypto.timingSafeEqual\<close> compares two buffers of one length, and throws a RangeError
  when the lengths differ.
\<close>

definition timingSafeEqual :: "string \<Rightarrow> string \<Rightarrow> exn + bool" where
  "timingSafeEqual a b =
     (if length a \<noteq> length b
      then Inl (RangeError ''Input buffers must have the same byte length'')
      else Inr (a = b))"

text \<open>
  \<open>verifySlackSignature\<close>. The clock \<open>Date.now()\<close> that the function reads is the argument
  \<open>dateNow\<close>, in milliseconds; a header that is absent is \<open>None\<close>. The \<open>try\<close> around the
  comparison is the case distinction on its result.
\<close>

definition verifySlackSignature ::
  "int \<Rightarrow> string \<Rightarrow> string option \<Rightarrow> string option \<Rightarrow> string \<Rightarrow> bool" where
  "verifySlackSignature dateNow signingSecret timestamp signature rawBody =
     (case timestamp of
        None \<Rightarrow> False
      | Some ts \<Rightarrow>
        (case signature of
           None \<Rightarrow> False
         | Some sg \<Rightarrow>
             if ts = [] \<or> sg = [] then False
             else
               let fiveMinutes = Finite (60 * 5);
                   now = now_seconds dateNow
               in if js_gt (Math_abs (js_sub now (js_Number ts))) fiveMinutes then False
                  else
                    let base = ''v0:'' @ ts @ '':'' @ rawBody;
                        hmac = createHmac_sha256_hex signingSecret base;
                        expected = ''v0='' @ hmac
                    in (case timingSafeEqual (Buffer_from expected) (Buffer_from sg) of
                          Inr r \<Rightarrow> r
                        | Inl _ \<Rightarrow> False)))"

section \<open>Form bodies: \<open>URLSearchParams\<close>\<close>

fun split_on :: "char \<Rightarrow> string \<Rightarrow> string list" where
  "split_on d [] = [[]]"
| "split_on d (c # cs) =
     (if c = d then [] # split_on d cs
      else (case split_on d cs of x # xs \<Rightarrow> (c # x) # xs | [] \<Rightarrow> [[c]]))"

text \<open>A percent sign with two hexadecimal digits after it is the byte they denote.\<close>

fun percent_decode :: "string \<Rightarrow> string" where
  "percent_decode (c # h # l # cs) =
     (if c = CHR ''%'' \<and> digit_val h < 16 \<and> digit_val l < 16
      then char_of (16 * digit_val h + digit_val l) # percent_decode cs
      else c # percent_decode (h # l # cs))"
| "percent_decode cs = cs"

text \<open>
  Decoding bytes as UTF-8, as the runtime does it: a sequence that is not well formed
  becomes U+FFFD, and the byte that broke it is read again. In the representation of
  strings by their encoding, well-formed input is unchanged.
\<close>

definition replacement_character :: string where
  "replacement_character = [CHR 0xEF, CHR 0xBF, CHR 0xBD]"

text \<open>For a lead byte: the continuation bytes it needs and the range of the next byte.\<close>

definition utf8_lead :: "nat \<Rightarrow> (nat \<times> nat \<times> nat) option" where
  "utf8_lead b =
     (if 0xC2 \<le> b \<and> b \<le> 0xDF then Some (1, 0x80, 0xBF)
      else if 0xE0 \<le> b \<and> b \<le> 0xEF
        then Some (2, if b = 0xE0 then 0xA0 else 0x80, if b = 0xED then 0x9F else 0xBF)
      else if 0xF0 \<le> b \<and> b \<le> 0xF4
        then Some (3, if b = 0xF0 then 0x90 else 0x80, if b = 0xF4 then 0x8F else 0xBF)
      else None)"

fun utf8_decode :: "(nat \<times> string \<times> nat \<times> nat) option \<Rightarrow> string \<Rightarrow> string" where
  "utf8_decode None [] = []"
| "utf8_decode (Some st) [] = replacement_character"
| "utf8_decode None (b # bs) =
     (if (of_char b :: nat) < 0x80 then b # utf8_decode None bs
      else (case utf8_lead (of_char b) of
              Some (n, lo, hi) \<Rightarrow> utf8_decode (Some (n, [b], lo, hi)) bs
            | None \<Rightarrow> replacement_character @ utf8_decode None bs))"
| "utf8_decode (Some (n, seen, lo, hi)) (b # bs) =
     (if lo \<le> (of_char b :: nat) \<and> (of_char b :: nat) \<le> hi
      then (if n = 1 then seen @ [b] @ utf8_decode None bs
            else utf8_decode (Some (n - 1, seen @ [b], 0x80, 0xBF)) bs)
      else replacement_character @ utf8_decode None (b # bs))"

definition decode_component :: "string \<Rightarrow> string" where
  "decode_component s =
     utf8_decode None (percent_decode (map (\<lambda>c. if c = CHR ''+'' then CHR '' '' else c) s))"

text \<open>
  The \<open>application/x-www-form-urlencoded\<close> parser: the pieces between ampersands, the
  empty ones dropped, each cut at its first equals sign.
\<close>

definition parse_urlencoded :: "string \<Rightarrow> (string \<times> string) list" where
  "parse_urlencoded input =
     map (\<lambda>bytes. (decode_component (takeWhile (\<lambda>c. c \<noteq> CHR ''='') bytes),
                   decode_component (drop 1 (dropWhile (\<lambda>c. c \<noteq> CHR ''='') bytes))))
       (filter (\<lambda>bytes. bytes \<noteq> []) (split_on CHR ''&'' input))"

text \<open>\<open>new URLSearchParams(init)\<close> drops one leading question mark.\<close>

definition URLSearchParams :: "string \<Rightarrow> (string \<times> string) list" where
  "URLSearchParams init =
     parse_urlencoded (case init of c # r \<Rightarrow> if c = CHR ''?'' then r else init | [] \<Rightarrow> [])"

text \<open>\<open>params.get(name)\<close>: the value of the first pair of that name, or null.\<close>

definition params_get :: "(string \<times> string) list \<Rightarrow> string \<Rightarrow> string option" where
  "params_get params name = map_of params name"

section \<open>Requests, responses and the environment\<close>

record http_response =
  status :: nat
  headers :: "(string \<times> string) list"
  body :: string

text \<open>
  \<open>new Response(body, {status, headers})\<close> with a string body: without a content type of
  its own the response is plain text.
\<close>

definition Response_new :: "string \<Rightarrow> nat \<Rightarrow> (string \<times> string) list \<Rightarrow> http_response" where
  "Response_new b st hs =
     \<lparr>status = st,
      headers = (if map_of hs ''content-type'' = None
                 then hs @ [(''content-type'', ''text/plain;charset=UTF-8'')] else hs),
      body = b\<rparr>"

text \<open>
  An incoming request: its header lines, names in lower case, and the text of its body,
  which \<open>req.text()\<close> is taken to deliver. \<open>headers.get(name)\<close> joins the values of
  the lines of that name.
\<close>

record request =
  req_headers :: "(string \<times> string) list"
  req_body :: string

fun join_values :: "string list \<Rightarrow> string" where
  "join_values [] = []"
| "join_values [v] = v"
| "join_values (v # vs) = v @ '', '' @ join_values vs"

definition headers_get :: "request \<Rightarrow> string \<Rightarrow> string option" where
  "headers_get req name =
     (let vs = map snd (filter (\<lambda>kv. fst kv = name) (req_headers req))
      in if vs = [] then None else Some (join_values vs))"

text \<open>\<open>process.env\<close>: a variable that is not set is \<open>None\<close>.\<close>

record process_env =
  SLACK_SIGNING_SECRET :: "string option"
  CLAUDE_API_KEY :: "string option"
  NODE_ENV :: "string option"

text \<open>\<open>!v\<close> for a string that may be absent: absent, or empty.\<close>

definition falsy :: "string option \<Rightarrow> bool" where
  "falsy v = (case v of None \<Rightarrow> True | Some s \<Rightarrow> s = [])"

section \<open>Admission: \<open>validateSlackRequest\<close> (\<open>utils.ts\<close>)\<close>

text \<open>
  The result is \<open>{error}\<close> or \<open>{rawBody, claudeKey}\<close>. The second component tells whether
  the body of the request was read (\<open>req.text()\<close>).
\<close>

datatype validation = Rejected http_response | Validated string string

definition validateSlackRequest :: "process_env \<Rightarrow> int \<Rightarrow> request \<Rightarrow> validation \<times> bool" where
  "validateSlackRequest env dateNow req =
     (case SLACK_SIGNING_SECRET env of
        None \<Rightarrow> (Rejected (Response_new ''Missing env vars'' 500 []), False)
      | Some signingSecret \<Rightarrow>
        (case CLAUDE_API_KEY env of
           None \<Rightarrow> (Rejected (Response_new ''Missing env vars'' 500 []), False)
         | Some claudeKey \<Rightarrow>
             if signingSecret = [] \<or> claudeKey = []
             then (Rejected (Response_new ''Missing env vars'' 500 []), False)
             else
               let rawBody = req_body req;
                   sig = headers_get req ''x-slack-signature'';
                   ts = headers_get req ''x-slack-request-timestamp'';
                   maybeParams = URLSearchParams rawBody
               in if params_get maybeParams ''type'' = Some ''url_verification''
                  then (Rejected (Response_new
                          (case params_get maybeParams ''challenge'' of
                             Some c \<Rightarrow> c | None \<Rightarrow> []) 200 []), True)
                  else if NODE_ENV env = Some ''production'' \<and>
                          \<not> verifySlackSignature dateNow signingSecret ts sig rawBody
                  then (Rejected (Response_new ''Bad signature'' 401 []), True)
                  else (Validated rawBody claudeKey, True)))"

section \<open>Messages: \<open>JSON.stringify\<close>, \<open>createAckResponse\<close>, \<open>sendSlackMessage\<close>\<close>

text \<open>
  A string in JSON: the quote, the backslash and the control characters are escaped,
  every other byte stands for itself.
\<close>

definition json_escape :: "char \<Rightarrow> string" where
  "json_escape c =
     (let n = (of_char c :: nat) in
      if n = 0x22 then [CHR 0x5C, CHR 0x22]
      else if n = 0x5C then [CHR 0x5C, CHR 0x5C]
      else if n = 0x08 then [CHR 0x5C, CHR ''b'']
      else if n = 0x0C then [CHR 0x5C, CHR ''f'']
      else if n = 0x0A then [CHR 0x5C, CHR ''n'']
      else if n = 0x0D then [CHR 0x5C, CHR ''r'']
      else if n = 0x09 then [CHR 0x5C, CHR ''t'']
      else if n < 0x20 then [CHR 0x5C, CHR ''u'', CHR ''0'', CHR ''0'', hexdigit (n div 16), hexdigit (n mod 16)]
      else [c])"

definition JSON_quote :: "string \<Rightarrow> string" where
  "JSON_quote s = [CHR 0x22] @ concat (map json_escape s) @ [CHR 0x22]"

datatype json = JString string | JBool bool

definition json_value :: "json \<Rightarrow> string" where
  "json_value v = (case v of JString s \<Rightarrow> JSON_quote s | JBool b \<Rightarrow> if b then ''true'' else ''false'')"

fun json_members :: "(string \<times> json) list \<Rightarrow> string" where
  "json_members [] = []"
| "json_members [(k, v)] = JSON_quote k @ '':'' @ json_value v"
| "json_members ((k, v) # kvs) = JSON_quote k @ '':'' @ json_value v @ '','' @ json_members kvs"

text \<open>\<open>JSON.stringify\<close> of an object literal, its members in the order written.\<close>

definition JSON_stringify :: "(string \<times> json) list \<Rightarrow> string" where
  "JSON_stringify kvs = ''{'' @ json_members kvs @ ''}''"

datatype response_type = ephemeral | in_channel

definition response_type_string :: "response_type \<Rightarrow> string" where
  "response_type_string t = (case t of ephemeral \<Rightarrow> ''ephemeral'' | in_channel \<Rightarrow> ''in_channel'')"

text \<open>\<open>createAckResponse\<close>; an argument left out is \<open>None\<close> and takes its default.\<close>

definition createAckResponse :: "string \<Rightarrow> response_type option \<Rightarrow> http_response" where
  "createAckResponse text responseType =
     Response_new
       (JSON_stringify
          [(''response_type'', JString (response_type_string
              (case responseType of None \<Rightarrow> ephemeral | Some t \<Rightarrow> t))),
           (''text'', JString text)])
       200
       [(''content-type'', ''application/json; charset=utf-8'')]"

section \<open>Effects of a deferred task\<close>

text \<open>
  What a task does to the world is the list of the requests it hands to \<open>fetch\<close>, oldest
  first. The network answers the \<open>n\<close>-th of them as it likes: the call fails, or a
  response of some status arrives, whose body may fail to be read. Writing to the console
  is left out.
\<close>

record outbound =
  url :: string
  http_method :: string
  out_headers :: "(string \<times> string) list"
  out_body :: string

datatype fetch_outcome = NetworkError | Responded nat "string option"

type_synonym network = "nat \<Rightarrow> fetch_outcome"

record fetch_response =
  res_status :: nat
  res_body :: "string option"

text \<open>A computation that may throw, over the requests issued so far.\<close>

type_synonym 'a io = "outbound list \<Rightarrow> (exn + 'a) \<times> outbound list"

definition io_return :: "'a \<Rightarrow> 'a io" where
  "io_return x = (\<lambda>w. (Inr x, w))"

definition io_throw :: "exn \<Rightarrow> 'a io" where
  "io_throw e = (\<lambda>w. (Inl e, w))"

definition io_lift :: "exn + 'a \<Rightarrow> 'a io" where
  "io_lift r = (\<lambda>w. (r, w))"

definition io_bind :: "'a io \<Rightarrow> ('a \<Rightarrow> 'b io) \<Rightarrow> 'b io" where
  "io_bind m f = (\<lambda>w. case m w of (Inl e, w') \<Rightarrow> (Inl e, w') | (Inr x, w') \<Rightarrow> f x w')"

text \<open>\<open>try { m } catch (e) { h e }\<close>\<close>

definition io_try :: "'a io \<Rightarrow> (exn \<Rightarrow> 'a io) \<Rightarrow> 'a io" where
  "io_try m h = (\<lambda>w. case m w of (Inl e, w') \<Rightarrow> h e w' | (Inr x, w') \<Rightarrow> (Inr x, w'))"

definition fetch :: "network \<Rightarrow> outbound \<Rightarrow> fetch_response io" where
  "fetch net rq =
     (\<lambda>w. (case net (length w) of
              NetworkError \<Rightarrow> Inl (TypeError ''fetch failed'')
            | Responded st b \<Rightarrow> Inr \<lparr>res_status = st, res_body = b\<rparr>,
            w @ [rq]))"

text \<open>\<open>await response.text()\<close>\<close>

definition response_text :: "fetch_response \<Rightarrow> string io" where
  "response_text r =
     (case res_body r of None \<Rightarrow> io_throw (TypeError ''terminated'') | Some t \<Rightarrow> io_return t)"

definition callback_post :: "string \<Rightarrow> (string \<times> json) list \<Rightarrow> outbound" where
  "callback_post responseUrl payload =
     \<lparr>url = responseUrl, http_method = ''POST'',
      out_headers = [(''content-type'', ''application/json; charset=utf-8'')],
      out_body = JSON_stringify payload\<rparr>"

text \<open>\<open>sendSlackMessage\<close> (\<open>utils.ts\<close>): what it catches it throws again.\<close>

definition sendSlackMessage ::
  "network \<Rightarrow> string \<Rightarrow> string \<Rightarrow> response_type option \<Rightarrow> fetch_response io" where
  "sendSlackMessage net responseUrl text responseType =
     io_try
       (io_bind
          (fetch net (callback_post responseUrl
             [(''response_type'', JString (response_type_string
                 (case responseType of None \<Rightarrow> in_channel | Some t \<Rightarrow> t))),
              (''text'', JString text)]))
          (\<lambda>slackResponse.
             io_bind (response_text slackResponse) (\<lambda>responseText. io_return slackResponse)))
       (\<lambda>err. io_throw err)"

section \<open>The generation call\<close>

text \<open>
  How the call \<open>anthropic.messages.create\<close> of a task settles is given from outside: it
  resolves or rejects so many milliseconds after the task has started it, or it stays
  pending for ever. The prompt, and the user mention that only the prompt contains, are
  read by that call alone and are not modelled. A response without a content list is
  \<open>Malformed\<close>.
\<close>

datatype content_block = TextBlock string | OtherBlock

datatype api_response = Message "content_block list" | Malformed

datatype api_outcome = Resolves nat api_response | Rejects nat exn | Pending

text \<open>\<open>response.content.map(c => 'text' in c ? c.text : '').join('').trim()\<close>\<close>

definition content_text :: "api_response \<Rightarrow> exn + string" where
  "content_text response =
     (case response of
        Malformed \<Rightarrow> Inl (TypeError ''Cannot read properties of undefined'')
      | Message content \<Rightarrow>
          Inr (trim (concat (map (\<lambda>c. case c of TextBlock t \<Rightarrow> t | OtherBlock \<Rightarrow> []) content))))"

text \<open>
  \<open>await Promise.race([apiPromise, timeoutPromise])\<close>. The timer rejects 45000
  milliseconds after the call was started; the promise that settles first decides, the
  call when both settle at once, since it stands first and a timer is never early.
\<close>

definition race_timeout :: "api_outcome \<Rightarrow> exn + api_response" where
  "race_timeout api =
     (case api of
        Resolves t r \<Rightarrow> if t \<le> 45000 then Inr r else Inl (Error ''Claude API timeout after 45s'')
      | Rejects t e \<Rightarrow> if t \<le> 45000 then Inl e else Inl (Error ''Claude API timeout after 45s'')
      | Pending \<Rightarrow> Inl (Error ''Claude API timeout after 45s''))"

text \<open>\<open>await apiPromise\<close> alone: a call that stays pending is never resumed.\<close>

definition await_api :: "api_outcome \<Rightarrow> (exn + api_response) option" where
  "await_api api =
     (case api of Resolves t r \<Rightarrow> Some (Inr r) | Rejects t e \<Rightarrow> Some (Inl e) | Pending \<Rightarrow> None)"

section \<open>The four endpoints\<close>

text \<open>
  What a handler leaves for later: the variables that the function given to \<open>after\<close>
  has captured. What a handler returns: its response, whether it has read the body of the
  request, and the task it has scheduled, if any.
\<close>

record deferred =
  d_responseUrl :: string
  d_userInput :: string
  d_claudeKey :: string

record handled =
  response :: http_response
  body_read :: bool
  scheduled :: "deferred option"

subsection \<open>\<open>emojify/route.ts\<close>\<close>

definition emojify_fallback :: string where
  "emojify_fallback =
     [CHR 0xE2, CHR 0x9D, CHR 0x8C, CHR 0xF0, CHR 0x9F, CHR 0xA4, CHR 0xB7, CHR 0xE2, CHR 0x80,
      CHR 0x8D, CHR 0xE2, CHR 0x99, CHR 0x82, CHR 0xEF, CHR 0xB8, CHR 0x8F] @
     '' (Translation failed)''"

definition emojify_format :: "string \<Rightarrow> string \<Rightarrow> string" where
  "emojify_format userInput emojis =
     (if userInput \<noteq> []
      then [CHR 0xF0, CHR 0x9F, CHR 0x92, CHR 0xAC] @ '' _'' @ [CHR 0x22] @ userInput @
           [CHR 0x22] @ ''_'' @ [CHR 0x0A, CHR 0x0A] @ emojis
      else emojis)"

definition emojify_task :: "network \<Rightarrow> api_outcome \<Rightarrow> deferred \<Rightarrow> unit io" where
  "emojify_task net api d =
     io_try
       (io_bind (io_lift (race_timeout api)) (\<lambda>response.
        io_bind (io_lift (content_text response)) (\<lambda>emojis.
        io_bind (sendSlackMessage net (d_responseUrl d)
                   (emojify_format (d_userInput d) emojis) (Some in_channel))
          (\<lambda>sent. io_return ()))))
       (\<lambda>err.
          io_try
            (io_bind (sendSlackMessage net (d_responseUrl d) emojify_fallback (Some in_channel))
               (\<lambda>sent. io_return ()))
            (\<lambda>fetchErr. io_return ()))"

definition emojify_POST :: "process_env \<Rightarrow> int \<Rightarrow> request \<Rightarrow> handled" where
  "emojify_POST env dateNow req =
     (case validateSlackRequest env dateNow req of
        (Rejected err, rd) \<Rightarrow> \<lparr>response = err, body_read = rd, scheduled = None\<rparr>
      | (Validated rawBody claudeKey, rd) \<Rightarrow>
          let params = URLSearchParams rawBody;
              responseUrl = params_get params ''response_url'';
              userInput = trim (case params_get params ''text'' of Some t \<Rightarrow> t | None \<Rightarrow> []);
              ack = createAckResponse ''_Translating to emoji..._'' (Some in_channel)
          in \<lparr>response = ack, body_read = rd,
              scheduled =
                (case responseUrl of
                   None \<Rightarrow> None
                 | Some u \<Rightarrow>
                     if u = [] then None
                     else Some \<lparr>d_responseUrl = u, d_userInput = userInput,
                                d_claudeKey = claudeKey\<rparr>)\<rparr>)"

subsection \<open>The farming endpoint (second file of \<open>unnamed/part_000\<close>)\<close>

definition farming_fallback :: string where
  "farming_fallback =
     [CHR 0xF0, CHR 0x9F, CHR 0x9A, CHR 0x9C] @
     '' The crops have failed. Try rotating your keyboard 90 degrees and planting again.''"

definition farming_format :: "string \<Rightarrow> string \<Rightarrow> string" where
  "farming_format userInput text =
     (if userInput \<noteq> []
      then [CHR 0xF0, CHR 0x9F, CHR 0x9A, CHR 0x9C] @ '' *Farming Advice: '' @ userInput @
           ''*'' @ [CHR 0x0A, CHR 0x0A] @ text
      else [CHR 0xF0, CHR 0x9F, CHR 0x9A, CHR 0x9C] @ '' '' @ text)"

definition farming_task :: "network \<Rightarrow> api_outcome \<Rightarrow> deferred \<Rightarrow> unit io" where
  "farming_task net api d =
     io_try
       (io_bind (io_lift (race_timeout api)) (\<lambda>response.
        io_bind (io_lift (content_text response)) (\<lambda>text.
        io_bind (sendSlackMessage net (d_responseUrl d)
                   (farming_format (d_userInput d) text) (Some in_channel))
          (\<lambda>sent. io_return ()))))
       (\<lambda>err.
          io_try
            (io_bind (sendSlackMessage net (d_responseUrl d) farming_fallback (Some in_channel))
               (\<lambda>sent. io_return ()))
            (\<lambda>fetchErr. io_return ()))"

definition farming_POST :: "process_env \<Rightarrow> int \<Rightarrow> request \<Rightarrow> handled" where
  "farming_POST env dateNow req =
     (case validateSlackRequest env dateNow req of
        (Rejected err, rd) \<Rightarrow> \<lparr>response = err, body_read = rd, scheduled = None\<rparr>
      | (Validated rawBody claudeKey, rd) \<Rightarrow>
          let params = URLSearchParams rawBody;
              responseUrl = params_get params ''response_url'';
              userInput = trim (case params_get params ''text'' of Some t \<Rightarrow> t | None \<Rightarrow> []);
              ack = createAckResponse ''_Consulting the almanac..._'' (Some in_channel)
          in \<lparr>response = ack, body_read = rd,
              scheduled =
                (case responseUrl of
                   None \<Rightarrow> None
                 | Some u \<Rightarrow>
                     if u = [] then None
                     else Some \<lparr>d_responseUrl = u, d_userInput = userInput,
                                d_claudeKey = claudeKey\<rparr>)\<rparr>)"

subsection \<open>The sick-day endpoint (second file of \<open>emojify/route.ts\<close>)\<close>

definition sick_fallback :: string where
  "sick_fallback =
     ''Feeling under the weather but continuing to synergize strategically pending AI recovery.''"

definition sickbot_task :: "network \<Rightarrow> api_outcome \<Rightarrow> deferred \<Rightarrow> unit io" where
  "sickbot_task net api d =
     io_try
       (io_bind (io_lift (race_timeout api)) (\<lambda>response.
        io_bind (io_lift (content_text response)) (\<lambda>text.
          io_try
            (io_bind
               (fetch net (callback_post (d_responseUrl d)
                  [(''response_type'', JString ''in_channel''),
                   (''replace_original'', JBool True),
                   (''text'', JString text)]))
               (\<lambda>slackResponse.
                  io_bind (response_text slackResponse) (\<lambda>responseText. io_return ())))
            (\<lambda>fetchErr. io_return ()))))
       (\<lambda>err.
          io_try
            (io_bind
               (fetch net (callback_post (d_responseUrl d)
                  [(''response_type'', JString ''in_channel''),
                   (''replace_original'', JBool True),
                   (''text'', JString sick_fallback)]))
               (\<lambda>sent. io_return ()))
            (\<lambda>fetchErr. io_return ()))"

definition sickbot_POST :: "process_env \<Rightarrow> int \<Rightarrow> request \<Rightarrow> handled" where
  "sickbot_POST env dateNow req =
     (case SLACK_SIGNING_SECRET env of
        None \<Rightarrow> \<lparr>response = Response_new ''Missing env vars'' 500 [], body_read = False,
                 scheduled = None\<rparr>
      | Some signingSecret \<Rightarrow>
        (case CLAUDE_API_KEY env of
           None \<Rightarrow> \<lparr>response = Response_new ''Missing env vars'' 500 [], body_read = False,
                    scheduled = None\<rparr>
         | Some claudeKey \<Rightarrow>
             if signingSecret = [] \<or> claudeKey = []
             then \<lparr>response = Response_new ''Missing env vars'' 500 [], body_read = False,
                   scheduled = None\<rparr>
             else
               let rawBody = req_body req;
                   sig = headers_get req ''x-slack-signature'';
                   ts = headers_get req ''x-slack-request-timestamp'';
                   maybeParams = URLSearchParams rawBody
               in if params_get maybeParams ''type'' = Some ''url_verification''
                  then \<lparr>response = Response_new
                          (case params_get maybeParams ''challenge'' of
                             Some c \<Rightarrow> c | None \<Rightarrow> []) 200 [],
                        body_read = True, scheduled = None\<rparr>
                  else if NODE_ENV env = Some ''production'' \<and>
                          \<not> verifySlackSignature dateNow signingSecret ts sig rawBody
                  then \<lparr>response = Response_new ''Bad signature'' 401 [], body_read = True,
                        scheduled = None\<rparr>
                  else
                    let params = URLSearchParams rawBody;
                        responseUrl = params_get params ''response_url'';
                        userInput =
                          trim (case params_get params ''text'' of Some t \<Rightarrow> t | None \<Rightarrow> []);
                        ack = Response_new
                                (JSON_stringify
                                   [(''response_type'', JString ''in_channel''),
                                    (''text'', JString ''_Calibrating immune system..._'')])
                                200
                                [(''content-type'', ''application/json; charset=utf-8'')]
                    in \<lparr>response = ack, body_read = True,
                        scheduled =
                          (case responseUrl of
                             None \<Rightarrow> None
                           | Some u \<Rightarrow>
                               if u = [] then None
                               else Some \<lparr>d_responseUrl = u, d_userInput = userInput,
                                          d_claudeKey = claudeKey\<rparr>)\<rparr>))"

subsection \<open>The first sick-day endpoint (first file of \<open>unnamed/part_000\<close>)\<close>

text \<open>
  Its task awaits the generation call with no timer beside it, so the task is a partial
  function: \<open>None\<close> when the call stays pending.
\<close>

definition legacy_task ::
  "network \<Rightarrow> api_outcome \<Rightarrow> deferred \<Rightarrow> outbound list \<Rightarrow> ((exn + unit) \<times> outbound list) option" where
  "legacy_task net api d =
     (\<lambda>w. case await_api api of
            None \<Rightarrow> None
          | Some settled \<Rightarrow>
              Some (io_try
                (io_bind (io_lift settled) (\<lambda>response.
                 io_bind (io_lift (content_text response)) (\<lambda>text.
                   io_try
                     (io_bind
                        (fetch net (callback_post (d_responseUrl d)
                           [(''response_type'', JString ''ephemeral''),
                            (''text'', JString text)]))
                        (\<lambda>slackResponse.
                           io_bind (response_text slackResponse)
                             (\<lambda>responseText. io_return ())))
                     (\<lambda>fetchErr. io_return ()))))
                (\<lambda>err.
                   io_try
                     (io_bind
                        (fetch net (callback_post (d_responseUrl d)
                           [(''response_type'', JString ''ephemeral''),
                            (''text'', JString sick_fallback)]))
                        (\<lambda>sent. io_return ()))
                     (\<lambda>fetchErr. io_return ()))
                w))"

definition legacy_POST :: "process_env \<Rightarrow> int \<Rightarrow> request \<Rightarrow> handled" where
  "legacy_POST env dateNow req =
     (case SLACK_SIGNING_SECRET env of
        None \<Rightarrow> \<lparr>response = Response_new ''Missing env vars'' 500 [], body_read = False,
                 scheduled = None\<rparr>
      | Some signingSecret \<Rightarrow>
        (case CLAUDE_API_KEY env of
           None \<Rightarrow> \<lparr>response = Response_new ''Missing env vars'' 500 [], body_read = False,
                    scheduled = None\<rparr>
         | Some claudeKey \<Rightarrow>
             if signingSecret = [] \<or> claudeKey = []
             then \<lparr>response = Response_new ''Missing env vars'' 500 [], body_read = False,
                   scheduled = None\<rparr>
             else
               let rawBody = req_body req;
                   sig = headers_get req ''x-slack-signature'';
                   ts = headers_get req ''x-slack-request-timestamp'';
                   maybeParams = URLSearchParams rawBody
               in if params_get maybeParams ''type'' = Some ''url_verification''
                  then \<lparr>response = Response_new
                          (case params_get maybeParams ''challenge'' of
                             Some c \<Rightarrow> c | None \<Rightarrow> []) 200 [],
                        body_read = True, scheduled = None\<rparr>
                  else if NODE_ENV env = Some ''production'' \<and>
                          \<not> verifySlackSignature dateNow signingSecret ts sig rawBody
                  then \<lparr>response = Response_new ''Bad signature'' 401 [], body_read = True,
                        scheduled = None\<rparr>
                  else
                    let params = URLSearchParams rawBody;
                        responseUrl = params_get params ''response_url'';
                        userInput =
                          trim (case params_get params ''text'' of Some t \<Rightarrow> t | None \<Rightarrow> []);
                        ack = Response_new
                                (JSON_stringify
                                   [(''response_type'', JString ''ephemeral''),
                                    (''text'', JString ''_Calibrating immune system..._'')])
                                200
                                [(''content-type'', ''application/json; charset=utf-8'')]
                    in \<lparr>response = ack, body_read = True,
                        scheduled =
                          (case responseUrl of
                             None \<Rightarrow> None
                           | Some u \<Rightarrow>
                               if u = [] then None
                               else Some \<lparr>d_responseUrl = u, d_userInput = userInput,
                                          d_claudeKey = claudeKey\<rparr>)\<rparr>))"

definition endpoints :: "(process_env \<Rightarrow> int \<Rightarrow> request \<Rightarrow> handled) list" where
  "endpoints = [emojify_POST, farming_POST, sickbot_POST, legacy_POST]"

section \<open>Vocabulary of the properties\<close>

text \<open>
  The request a task posts to the callback URL with a message, with and without
  \<open>replace_original\<close>.
\<close>

definition message_post :: "string \<Rightarrow> string \<Rightarrow> string \<Rightarrow> outbound" where
  "message_post responseUrl responseType text =
     callback_post responseUrl
       [(''response_type'', JString responseType), (''text'', JString text)]"

definition replacing_post :: "string \<Rightarrow> string \<Rightarrow> string \<Rightarrow> outbound" where
  "replacing_post responseUrl responseType text =
     callback_post responseUrl
       [(''response_type'', JString responseType), (''replace_original'', JBool True),
        (''text'', JString text)]"

text \<open>The \<open>n\<close>-th request is answered, and the body of the answer can be read.\<close>

definition send_succeeds :: "network \<Rightarrow> nat \<Rightarrow> bool" where
  "send_succeeds net n = (case net n of Responded st (Some b) \<Rightarrow> True | _ \<Rightarrow> False)"

text \<open>
  The text a task obtains from the generation call, or what the call throws: under the
  timer, and without it (\<open>None\<close> when the call stays pending).
\<close>

definition timed_generation :: "api_outcome \<Rightarrow> exn + string" where
  "timed_generation api = (case race_timeout api of Inl e \<Rightarrow> Inl e | Inr r \<Rightarrow> content_text r)"

definition untimed_generation :: "api_outcome \<Rightarrow> (exn + string) option" where
  "untimed_generation api =
     (case await_api api of
        None \<Rightarrow> None
      | Some settled \<Rightarrow> Some (case settled of Inl e \<Rightarrow> Inl e | Inr r \<Rightarrow> content_text r))"

text \<open>Two networks: one that answers, one that loses the body of its first answer.\<close>

definition network_ok :: network where
  "network_ok n = Responded 200 (Some ''ok'')"


text \<open>
  Reading back what \<open>JSON_quote\<close> writes: the text up to the closing quote, escapes
  undone, and what follows the quote.
\<close>

definition json_escaped :: "char \<Rightarrow> char option" where
  "json_escaped e =
     (if e = CHR ''b'' then Some (CHR 0x08)
      else if e = CHR ''f'' then Some (CHR 0x0C)
      else if e = CHR ''n'' then Some (CHR 0x0A)
      else if e = CHR ''r'' then Some (CHR 0x0D)
      else if e = CHR ''t'' then Some (CHR 0x09)
      else if e = CHR 0x22 \<or> e = CHR 0x5C \<or> e = CHR ''/'' then Some e
      else None)"

fun json_unescape :: "string \<Rightarrow> (string \<times> string) option" where
  "json_unescape [] = None"
| "json_unescape (c # cs) =
     (if c = CHR 0x22 then Some ([], cs)
      else if c = CHR 0x5C then
        (case cs of
           [] \<Rightarrow> None
         | e # r \<Rightarrow>
             if e = CHR ''u'' then
               (case r of
                  a # b # h # l # r' \<Rightarrow>
                    if a = CHR ''0'' \<and> b = CHR ''0'' \<and> digit_val h < 16 \<and> digit_val l < 16
                    then map_option (\<lambda>st. (char_of (16 * digit_val h + digit_val l) # fst st, snd st))
                           (json_unescape r')
                    else None
                | _ \<Rightarrow> None)
             else (case json_escaped e of
                     None \<Rightarrow> None
                   | Some x \<Rightarrow> map_option (\<lambda>st. (x # fst st, snd st)) (json_unescape r)))
      else map_option (\<lambda>st. (c # fst st, snd st)) (json_unescape cs))"

definition json_unquote :: "string \<Rightarrow> (string \<times> string) option" where
  "json_unquote s = (case s of [] \<Rightarrow> None | c # cs \<Rightarrow> if c = CHR 0x22 then json_unescape cs else None)"

definition after_prefix :: "string \<Rightarrow> string \<Rightarrow> string option" where
  "after_prefix p s = (if take (length p) s = p then Some (drop (length p) s) else None)"

text \<open>Reading a body \<open>{"response_type":...,"text":...}\<close>: the two strings in it.\<close>

definition read_message :: "string \<Rightarrow> (string \<times> string) option" where
  "read_message b =
     (case after_prefix (''{'' @ JSON_quote ''response_type'' @ '':'') b of
        None \<Rightarrow> None
      | Some r1 \<Rightarrow>
        (case json_unquote r1 of
           None \<Rightarrow> None
         | Some (rt, r2) \<Rightarrow>
           (case after_prefix ('','' @ JSON_quote ''text'' @ '':'') r2 of
              None \<Rightarrow> None
            | Some r3 \<Rightarrow>
              (case json_unquote r3 of
                 None \<Rightarrow> None
               | Some (t, r4) \<Rightarrow> if r4 = ''}'' then Some (rt, t) else None))))"

section \<open>Properties of the signature verifier\<close>

lemma timingSafeEqual_same: "timingSafeEqual a a = Inr True"
  by (simp add: timingSafeEqual_def)

lemma timingSafeEqual_throws_iff:
  "(\<exists>e. timingSafeEqual a b = Inl e) = (length a \<noteq> length b)"
  by (simp add: timingSafeEqual_def)


lemma window_NaN:
  "js_gt (Math_abs (js_sub (now_seconds dateNow) NaN)) (Finite 300) = False"
  by (simp add: now_seconds_def)





text \<open>An infinite timestamp is as far from the clock as a timestamp can be.\<close>

lemma verify_rejects_infinite_timestamp:
  "js_Number ts = PosInfinity \<or> js_Number ts = NegInfinity \<Longrightarrow>
   verifySlackSignature dateNow secret (Some ts) signature rawBody = False"
  by (auto simp: verifySlackSignature_def now_seconds_def split: option.split)

text \<open>
  C5. A timestamp that is not empty and converts to NaN passes the replay window, and
  \<open>verifySlackSignature\<close> returns true on the token computed over that timestamp and the
  body, at any clock.
\<close>

theorem verify_accepts_nan_timestamp:
  assumes "ts \<noteq> []" and "js_Number ts = NaN"
  shows "\<not> js_gt (Math_abs (js_sub (now_seconds dateNow) (js_Number ts))) (Finite (60 * 5)) \<and>
         verifySlackSignature dateNow secret (Some ts)
           (Some (''v0='' @ createHmac_sha256_hex secret (''v0:'' @ ts @ '':'' @ rawBody)))
           rawBody = True"
  using assms
  by (simp add: verifySlackSignature_def window_NaN timingSafeEqual_same)

lemma Number_yesterday: "js_Number ''yesterday'' = NaN"
  by code_simp

theorem verify_accepts_nan_timestamp_witness:
  "''yesterday'' \<noteq> [] \<and> js_Number ''yesterday'' = NaN \<and>
   verifySlackSignature 1531421000000 ''8f742231b10e8888abcd99yyyzzz85a5''
     (Some ''yesterday'')
     (Some (''v0='' @ createHmac_sha256_hex ''8f742231b10e8888abcd99yyyzzz85a5''
        (''v0:'' @ ''yesterday'' @ '':'' @ ''text=hi'')))
     ''text=hi'' = True"
proof -
  have n: "''yesterday'' \<noteq> []" by simp
  note r = verify_accepts_nan_timestamp [OF n Number_yesterday]
  show ?thesis
    by (intro conjI) (rule n, rule Number_yesterday, rule r [THEN conjunct2])
qed




text \<open>
  C9. When the comparison throws, which it does when the two buffers differ in length,
  \<open>verifySlackSignature\<close> returns false.
\<close>

theorem verify_false_when_comparison_throws:
  assumes "timingSafeEqual
             (Buffer_from (''v0='' @ createHmac_sha256_hex secret (''v0:'' @ ts @ '':'' @ rawBody)))
             (Buffer_from sg) = Inl e"
  shows "verifySlackSignature dateNow secret (Some ts) (Some sg) rawBody = False"
  using assms
  by (simp add: verifySlackSignature_def)

theorem verify_false_when_comparison_throws_witness:
  "timingSafeEqual
     (Buffer_from (''v0='' @ createHmac_sha256_hex ''8f742231b10e8888abcd99yyyzzz85a5''
        (''v0:'' @ ''1531420618'' @ '':'' @ ''text=hi'')))
     (Buffer_from ''v0'') = Inl (RangeError ''Input buffers must have the same byte length'') \<and>
   verifySlackSignature 1531420618000 ''8f742231b10e8888abcd99yyyzzz85a5''
     (Some ''1531420618'') (Some ''v0'') ''text=hi'' = False"
proof -
  have t: "timingSafeEqual
     (Buffer_from (''v0='' @ createHmac_sha256_hex ''8f742231b10e8888abcd99yyyzzz85a5''
        (''v0:'' @ ''1531420618'' @ '':'' @ ''text=hi'')))
     (Buffer_from ''v0'') = Inl (RangeError ''Input buffers must have the same byte length'')"
    by (simp add: timingSafeEqual_def Buffer_from_def)
  show ?thesis
    by (intro conjI) (rule t, rule verify_false_when_comparison_throws [OF t])
qed

text \<open>
  The digest has 32 bytes whatever the key and the message are, so a signature of any
  other length than 67 makes the comparison throw.
\<close>

lemma round1_length: "length (round1 s kw) = 8"
  by (simp add: round1_def Let_def)

lemma foldl_round1_length: "length s = 8 \<Longrightarrow> length (foldl round1 s xs) = 8"
  by (induction xs arbitrary: s) (simp_all add: round1_length)

lemma compress_length: "length hs = 8 \<Longrightarrow> length (compress hs blk) = 8"
  by (simp add: compress_def foldl_round1_length)

lemma foldl_compress_length: "length hs = 8 \<Longrightarrow> length (foldl compress hs bs) = 8"
  by (induction bs arbitrary: hs) (simp_all add: compress_length)

lemma be_bytes_length: "length (be_bytes k n) = k"
  by (induction k arbitrary: n) simp_all

lemma sha256_length: "length (sha256 m) = 32"
proof -
  have "length (foldl compress H0 (map be32 (chunks 64 (pad m)))) = 8"
    by (rule foldl_compress_length) (simp add: H0_def)
  then show ?thesis
    by (simp add: sha256_def length_concat o_def be_bytes_length sum_list_triv)
qed

lemma hex_length: "length (hex bs) = 2 * length bs"
  by (simp add: hex_def length_concat o_def sum_list_triv)

text \<open>The expected token has 67 characters: \<open>v0=\<close> and 64 hexadecimal digits.\<close>

lemma expected_token_length: "length (''v0='' @ createHmac_sha256_hex key msg) = 67"
  by (simp add: createHmac_sha256_hex_def hex_length hmac_sha256_def Let_def sha256_length)

lemma verify_rejects_other_lengths:
  "length sg \<noteq> 67 \<Longrightarrow>
   (\<exists>e. timingSafeEqual
          (Buffer_from (''v0='' @ createHmac_sha256_hex secret (''v0:'' @ ts @ '':'' @ rawBody)))
          (Buffer_from sg) = Inl e) \<and>
   verifySlackSignature dateNow secret (Some ts) (Some sg) rawBody = False"
  using expected_token_length [of secret "''v0:'' @ ts @ '':'' @ rawBody"]
  by (auto simp: verifySlackSignature_def timingSafeEqual_def Buffer_from_def Let_def)

section \<open>Properties of admission\<close>

lemma falsy_simps: "falsy None" "falsy (Some s) = (s = [])"
  by (simp_all add: falsy_def)

lemma validate_unconfigured:
  "falsy (SLACK_SIGNING_SECRET env) \<or> falsy (CLAUDE_API_KEY env) \<Longrightarrow>
   validateSlackRequest env dateNow req =
     (Rejected (Response_new ''Missing env vars'' 500 []), False)"
  by (auto simp: validateSlackRequest_def falsy_def split: option.splits)

lemma validate_configured:
  "SLACK_SIGNING_SECRET env = Some signingSecret \<Longrightarrow> signingSecret \<noteq> [] \<Longrightarrow>
   CLAUDE_API_KEY env = Some claudeKey \<Longrightarrow> claudeKey \<noteq> [] \<Longrightarrow>
   validateSlackRequest env dateNow req =
     (if params_get (URLSearchParams (req_body req)) ''type'' = Some ''url_verification''
      then (Rejected (Response_new
              (case params_get (URLSearchParams (req_body req)) ''challenge'' of
                 Some c \<Rightarrow> c | None \<Rightarrow> []) 200 []), True)
      else if NODE_ENV env = Some ''production'' \<and>
              \<not> verifySlackSignature dateNow signingSecret
                  (headers_get req ''x-slack-request-timestamp'')
                  (headers_get req ''x-slack-signature'') (req_body req)
      then (Rejected (Response_new ''Bad signature'' 401 []), True)
      else (Validated (req_body req) claudeKey, True))"
  by (simp add: validateSlackRequest_def Let_def)

lemma inline_unconfigured:
  assumes "falsy (SLACK_SIGNING_SECRET env) \<or> falsy (CLAUDE_API_KEY env)"
  shows "sickbot_POST env dateNow req =
           \<lparr>response = Response_new ''Missing env vars'' 500 [], body_read = False,
            scheduled = None\<rparr>"
    and "legacy_POST env dateNow req =
           \<lparr>response = Response_new ''Missing env vars'' 500 [], body_read = False,
            scheduled = None\<rparr>"
  using assms
  by (auto simp: sickbot_POST_def legacy_POST_def falsy_def split: option.splits)

lemma shared_unconfigured:
  assumes "falsy (SLACK_SIGNING_SECRET env) \<or> falsy (CLAUDE_API_KEY env)"
  shows "emojify_POST env dateNow req =
           \<lparr>response = Response_new ''Missing env vars'' 500 [], body_read = False,
            scheduled = None\<rparr>"
    and "farming_POST env dateNow req =
           \<lparr>response = Response_new ''Missing env vars'' 500 [], body_read = False,
            scheduled = None\<rparr>"
  by (simp_all add: emojify_POST_def farming_POST_def validate_unconfigured [OF assms])

lemma endpoints_unconfigured:
  assumes "falsy (SLACK_SIGNING_SECRET env) \<or> falsy (CLAUDE_API_KEY env)"
  shows "\<forall>POST \<in> set endpoints. POST env dateNow req =
           \<lparr>response = Response_new ''Missing env vars'' 500 [], body_read = False,
            scheduled = None\<rparr>"
  by (simp add: endpoints_def inline_unconfigured [OF assms] shared_unconfigured [OF assms])

lemma endpoints_handshake:
  assumes "\<not> falsy (SLACK_SIGNING_SECRET env)" and "\<not> falsy (CLAUDE_API_KEY env)"
    and "params_get (URLSearchParams (req_body req)) ''type'' = Some ''url_verification''"
  shows "\<forall>POST \<in> set endpoints. POST env dateNow req =
           \<lparr>response = Response_new
              (case params_get (URLSearchParams (req_body req)) ''challenge'' of
                 Some c \<Rightarrow> c | None \<Rightarrow> []) 200 [],
            body_read = True, scheduled = None\<rparr>"
  using assms
  by (auto simp: endpoints_def emojify_POST_def farming_POST_def sickbot_POST_def
      legacy_POST_def validateSlackRequest_def falsy_def Let_def split: option.splits)






text \<open>
  C8. When the signing secret or the generation key is not set, \<open>validateSlackRequest\<close>
  and each of the four handlers answer 500 with the plain text \<open>Missing env vars\<close>,
  without having read the body of the request, and no task is scheduled.
\<close>

theorem missing_secret_is_500_before_body:
  assumes "SLACK_SIGNING_SECRET env = None \<or> CLAUDE_API_KEY env = None"
  shows "validateSlackRequest env dateNow req =
           (Rejected \<lparr>status = 500,
                      headers = [(''content-type'', ''text/plain;charset=UTF-8'')],
                      body = ''Missing env vars''\<rparr>, False) \<and>
         (\<forall>POST \<in> set endpoints. POST env dateNow req =
             \<lparr>response = \<lparr>status = 500,
                           headers = [(''content-type'', ''text/plain;charset=UTF-8'')],
                           body = ''Missing env vars''\<rparr>,
              body_read = False, scheduled = None\<rparr>)"
proof -
  from assms have u: "falsy (SLACK_SIGNING_SECRET env) \<or> falsy (CLAUDE_API_KEY env)"
    by (auto simp: falsy_def)
  have r: "Response_new ''Missing env vars'' 500 [] =
      \<lparr>status = 500, headers = [(''content-type'', ''text/plain;charset=UTF-8'')],
       body = ''Missing env vars''\<rparr>"
    by (simp add: Response_new_def)
  show ?thesis
    using validate_unconfigured [OF u, of dateNow req] endpoints_unconfigured [OF u, of dateNow req]
    by (simp add: r)
qed

theorem missing_secret_is_500_before_body_witness:
  "(SLACK_SIGNING_SECRET
      \<lparr>SLACK_SIGNING_SECRET = None, CLAUDE_API_KEY = Some ''sk-ant-1'',
       NODE_ENV = Some ''production''\<rparr> = None \<or>
    CLAUDE_API_KEY
      \<lparr>SLACK_SIGNING_SECRET = None, CLAUDE_API_KEY = Some ''sk-ant-1'',
       NODE_ENV = Some ''production''\<rparr> = None) \<and>
   sickbot_POST
     \<lparr>SLACK_SIGNING_SECRET = None, CLAUDE_API_KEY = Some ''sk-ant-1'',
      NODE_ENV = Some ''production''\<rparr>
     1531420618000
     \<lparr>req_headers = [], req_body = ''text=hi&response_url=https%3A%2F%2Fhooks.slack.com%2F1''\<rparr> =
     \<lparr>response = \<lparr>status = 500,
                   headers = [(''content-type'', ''text/plain;charset=UTF-8'')],
                   body = ''Missing env vars''\<rparr>,
      body_read = False, scheduled = None\<rparr>"
proof -
  have h: "SLACK_SIGNING_SECRET
      \<lparr>SLACK_SIGNING_SECRET = None, CLAUDE_API_KEY = Some ''sk-ant-1'',
       NODE_ENV = Some ''production''\<rparr> = None \<or>
    CLAUDE_API_KEY
      \<lparr>SLACK_SIGNING_SECRET = None, CLAUDE_API_KEY = Some ''sk-ant-1'',
       NODE_ENV = Some ''production''\<rparr> = None"
    by simp
  have m: "sickbot_POST \<in> set endpoints" by (simp add: endpoints_def)
  note r = missing_secret_is_500_before_body [OF h, THEN conjunct2, THEN bspec, OF m]
  show ?thesis by (intro conjI) (rule h, rule r)
qed


lemma handshake_form:
  "params_get (URLSearchParams ''type=url_verification&challenge=abc123'') ''type'' =
     Some ''url_verification''"
  "params_get (URLSearchParams ''type=url_verification&challenge=abc123'') ''challenge'' =
     Some ''abc123''"
  by code_simp+

lemma command_form:
  "params_get (URLSearchParams ''text=hi&response_url=https%3A%2F%2Fhooks.slack.com%2F1'')
     ''type'' = None"
  by code_simp

text \<open>
  C3, as the code has it. When both secrets are set and not empty, a request whose form
  field \<open>type\<close> is \<open>url_verification\<close> is answered 200 with the plain text of its field
  \<open>challenge\<close> (the empty text when there is none), by \<open>validateSlackRequest\<close> and by each
  of the four handlers, whatever the signature headers, the clock and \<open>NODE_ENV\<close> are;
  no task is scheduled.
\<close>

theorem handshake_echoes_challenge:
  assumes "\<not> falsy (SLACK_SIGNING_SECRET env)" and "\<not> falsy (CLAUDE_API_KEY env)"
    and "params_get (URLSearchParams (req_body req)) ''type'' = Some ''url_verification''"
  shows "validateSlackRequest env dateNow req =
           (Rejected \<lparr>status = 200,
                      headers = [(''content-type'', ''text/plain;charset=UTF-8'')],
                      body = (case params_get (URLSearchParams (req_body req)) ''challenge'' of
                                Some c \<Rightarrow> c | None \<Rightarrow> [])\<rparr>, True) \<and>
         (\<forall>POST \<in> set endpoints. POST env dateNow req =
             \<lparr>response = \<lparr>status = 200,
                           headers = [(''content-type'', ''text/plain;charset=UTF-8'')],
                           body = (case params_get (URLSearchParams (req_body req))
                                          ''challenge'' of Some c \<Rightarrow> c | None \<Rightarrow> [])\<rparr>,
              body_read = True, scheduled = None\<rparr>)"
proof -
  have r: "\<And>c. Response_new c 200 [] =
      \<lparr>status = 200, headers = [(''content-type'', ''text/plain;charset=UTF-8'')], body = c\<rparr>"
    by (simp add: Response_new_def)
  from assms have v: "validateSlackRequest env dateNow req =
      (Rejected (Response_new
         (case params_get (URLSearchParams (req_body req)) ''challenge'' of
            Some c \<Rightarrow> c | None \<Rightarrow> []) 200 []), True)"
    by (auto simp: validateSlackRequest_def falsy_def Let_def split: option.splits)
  show ?thesis
    using v endpoints_handshake [OF assms, of dateNow]
    by (simp add: r)
qed

theorem handshake_echoes_challenge_witness:
  "\<not> falsy (SLACK_SIGNING_SECRET
       \<lparr>SLACK_SIGNING_SECRET = Some ''8f742231b10e8888abcd99yyyzzz85a5'',
        CLAUDE_API_KEY = Some ''sk-ant-1'', NODE_ENV = Some ''production''\<rparr>) \<and>
   \<not> falsy (CLAUDE_API_KEY
       \<lparr>SLACK_SIGNING_SECRET = Some ''8f742231b10e8888abcd99yyyzzz85a5'',
        CLAUDE_API_KEY = Some ''sk-ant-1'', NODE_ENV = Some ''production''\<rparr>) \<and>
   params_get (URLSearchParams (req_body
       \<lparr>req_headers = [], req_body = ''type=url_verification&challenge=abc123''\<rparr>)) ''type'' =
     Some ''url_verification'' \<and>
   validateSlackRequest
     \<lparr>SLACK_SIGNING_SECRET = Some ''8f742231b10e8888abcd99yyyzzz85a5'',
      CLAUDE_API_KEY = Some ''sk-ant-1'', NODE_ENV = Some ''production''\<rparr>
     1531420618000
     \<lparr>req_headers = [], req_body = ''type=url_verification&challenge=abc123''\<rparr> =
     (Rejected \<lparr>status = 200,
                headers = [(''content-type'', ''text/plain;charset=UTF-8'')],
                body = ''abc123''\<rparr>, True)"
proof -
  have a: "\<not> falsy (SLACK_SIGNING_SECRET
       \<lparr>SLACK_SIGNING_SECRET = Some ''8f742231b10e8888abcd99yyyzzz85a5'',
        CLAUDE_API_KEY = Some ''sk-ant-1'', NODE_ENV = Some ''production''\<rparr>)"
    by (simp add: falsy_def)
  have b: "\<not> falsy (CLAUDE_API_KEY
       \<lparr>SLACK_SIGNING_SECRET = Some ''8f742231b10e8888abcd99yyyzzz85a5'',
        CLAUDE_API_KEY = Some ''sk-ant-1'', NODE_ENV = Some ''production''\<rparr>)"
    by (simp add: falsy_def)
  have c: "params_get (URLSearchParams (req_body
       \<lparr>req_headers = [], req_body = ''type=url_verification&challenge=abc123''\<rparr>)) ''type'' =
     Some ''url_verification''"
    by (simp add: handshake_form)
  note r = handshake_echoes_challenge [OF a b c, of 1531420618000, THEN conjunct1]
  have d: "validateSlackRequest
     \<lparr>SLACK_SIGNING_SECRET = Some ''8f742231b10e8888abcd99yyyzzz85a5'',
      CLAUDE_API_KEY = Some ''sk-ant-1'', NODE_ENV = Some ''production''\<rparr>
     1531420618000
     \<lparr>req_headers = [], req_body = ''type=url_verification&challenge=abc123''\<rparr> =
     (Rejected \<lparr>status = 200,
                headers = [(''content-type'', ''text/plain;charset=UTF-8'')],
                body = ''abc123''\<rparr>, True)"
    using r by (simp add: handshake_form)
  show ?thesis by (intro conjI) (rule a, rule b, rule c, rule d)
qed

text \<open>
  C3, as the claim states it, fails: with the generation key not set, the handshake
  request is answered 500.
\<close>

theorem handshake_without_secret_is_500:
  "params_get (URLSearchParams ''type=url_verification&challenge=abc123'') ''type'' =
     Some ''url_verification'' \<and>
   response (legacy_POST
     \<lparr>SLACK_SIGNING_SECRET = Some ''8f742231b10e8888abcd99yyyzzz85a5'',
      CLAUDE_API_KEY = None, NODE_ENV = None\<rparr>
     1531420618000
     \<lparr>req_headers = [], req_body = ''type=url_verification&challenge=abc123''\<rparr>) =
     \<lparr>status = 500, headers = [(''content-type'', ''text/plain;charset=UTF-8'')],
      body = ''Missing env vars''\<rparr>"
  by (simp add: handshake_form legacy_POST_def Response_new_def)





text \<open>Outside production mode the same unsigned command is admitted.\<close>

lemma unsigned_request_admitted_in_development:
  "validateSlackRequest
     \<lparr>SLACK_SIGNING_SECRET = Some ''8f742231b10e8888abcd99yyyzzz85a5'',
      CLAUDE_API_KEY = Some ''sk-ant-1'', NODE_ENV = Some ''development''\<rparr>
     1531420618000
     \<lparr>req_headers = [], req_body = ''text=hi&response_url=https%3A%2F%2Fhooks.slack.com%2F1''\<rparr> =
     (Validated ''text=hi&response_url=https%3A%2F%2Fhooks.slack.com%2F1'' ''sk-ant-1'', True)"
  by (simp add: validate_configured command_form)

text \<open>
  A request that is admitted starts a task when it has a \<open>response_url\<close> that is not
  empty, and only then; the four handlers hand the same variables to it.
\<close>

lemma admitted_request_schedules_task:
  assumes "SLACK_SIGNING_SECRET env = Some signingSecret" and "signingSecret \<noteq> []"
    and "CLAUDE_API_KEY env = Some claudeKey" and "claudeKey \<noteq> []"
    and "params_get (URLSearchParams (req_body req)) ''type'' \<noteq> Some ''url_verification''"
    and "NODE_ENV env \<noteq> Some ''production'' \<or>
         verifySlackSignature dateNow signingSecret
           (headers_get req ''x-slack-request-timestamp'')
           (headers_get req ''x-slack-signature'') (req_body req)"
  shows "\<forall>POST \<in> set endpoints. scheduled (POST env dateNow req) =
           (case params_get (URLSearchParams (req_body req)) ''response_url'' of
              None \<Rightarrow> None
            | Some u \<Rightarrow>
                if u = [] then None
                else Some \<lparr>d_responseUrl = u,
                           d_userInput = trim (case params_get (URLSearchParams (req_body req))
                                                      ''text'' of Some t \<Rightarrow> t | None \<Rightarrow> []),
                           d_claudeKey = claudeKey\<rparr>)"
  using assms
  by (auto simp: endpoints_def emojify_POST_def farming_POST_def sickbot_POST_def
      legacy_POST_def validateSlackRequest_def Let_def)

section \<open>Properties of the deferred tasks\<close>

lemmas io_defs = io_return_def io_throw_def io_lift_def io_bind_def io_try_def

lemma sendSlackMessage_run:
  "sendSlackMessage net responseUrl text responseType w =
     ((case net (length w) of
         NetworkError \<Rightarrow> Inl (TypeError ''fetch failed'')
       | Responded st None \<Rightarrow> Inl (TypeError ''terminated'')
       | Responded st (Some b) \<Rightarrow> Inr \<lparr>res_status = st, res_body = Some b\<rparr>),
      w @ [message_post responseUrl
             (response_type_string (case responseType of None \<Rightarrow> in_channel | Some t \<Rightarrow> t))
             text])"
  by (simp add: sendSlackMessage_def io_defs fetch_def response_text_def message_post_def
      split: fetch_outcome.splits option.splits)

lemma send_then_fallback:
  "io_try
     (io_bind (sendSlackMessage net u text (Some in_channel)) (\<lambda>sent. io_return ()))
     (\<lambda>err. io_try
        (io_bind (sendSlackMessage net u fallback (Some in_channel)) (\<lambda>sent. io_return ()))
        (\<lambda>fetchErr. io_return ())) w =
   (Inr (), w @ (if send_succeeds net (length w) then [message_post u ''in_channel'' text]
                 else [message_post u ''in_channel'' text, message_post u ''in_channel'' fallback]))"
  by (simp add: io_defs sendSlackMessage_run send_succeeds_def response_type_string_def
      split: fetch_outcome.splits option.splits)

lemma fallback_only:
  "io_try
     (io_bind (sendSlackMessage net u fallback (Some in_channel)) (\<lambda>sent. io_return ()))
     (\<lambda>fetchErr. io_return ()) w =
   (Inr (), w @ [message_post u ''in_channel'' fallback])"
  by (simp add: io_defs sendSlackMessage_run response_type_string_def
      split: fetch_outcome.splits option.splits)

text \<open>The shape that the emojify and the farming task share.\<close>

lemma sending_task_run:
  "io_try
     (io_bind (io_lift (race_timeout api)) (\<lambda>response.
      io_bind (io_lift (content_text response)) (\<lambda>text.
      io_bind (sendSlackMessage net u (fmt text) (Some in_channel)) (\<lambda>sent. io_return ()))))
     (\<lambda>err. io_try
        (io_bind (sendSlackMessage net u fallback (Some in_channel)) (\<lambda>sent. io_return ()))
        (\<lambda>fetchErr. io_return ())) w =
   (Inr (), w @
      (case timed_generation api of
         Inl e \<Rightarrow> [message_post u ''in_channel'' fallback]
       | Inr t \<Rightarrow>
           if send_succeeds net (length w) then [message_post u ''in_channel'' (fmt t)]
           else [message_post u ''in_channel'' (fmt t), message_post u ''in_channel'' fallback]))"
proof (cases "timed_generation api")
  case (Inl e)
  then show ?thesis
    using fallback_only [of net u fallback w]
    by (auto simp: timed_generation_def io_defs split: sum.splits)
next
  case (Inr t)
  then obtain r where r: "race_timeout api = Inr r" "content_text r = Inr t"
    by (auto simp: timed_generation_def split: sum.splits)
  have "io_try
     (io_bind (io_lift (race_timeout api)) (\<lambda>response.
      io_bind (io_lift (content_text response)) (\<lambda>text.
      io_bind (sendSlackMessage net u (fmt text) (Some in_channel)) (\<lambda>sent. io_return ()))))
     (\<lambda>err. io_try
        (io_bind (sendSlackMessage net u fallback (Some in_channel)) (\<lambda>sent. io_return ()))
        (\<lambda>fetchErr. io_return ())) w =
      io_try
        (io_bind (sendSlackMessage net u (fmt t) (Some in_channel)) (\<lambda>sent. io_return ()))
        (\<lambda>err. io_try
           (io_bind (sendSlackMessage net u fallback (Some in_channel)) (\<lambda>sent. io_return ()))
           (\<lambda>fetchErr. io_return ())) w"
    by (simp add: r io_lift_def io_bind_def io_try_def)
  then show ?thesis by (simp add: send_then_fallback Inr)
qed

lemma emojify_task_run:
  "emojify_task net api d w =
     (Inr (), w @
        (case timed_generation api of
           Inl e \<Rightarrow> [message_post (d_responseUrl d) ''in_channel'' emojify_fallback]
         | Inr t \<Rightarrow>
             if send_succeeds net (length w)
             then [message_post (d_responseUrl d) ''in_channel'' (emojify_format (d_userInput d) t)]
             else [message_post (d_responseUrl d) ''in_channel'' (emojify_format (d_userInput d) t),
                   message_post (d_responseUrl d) ''in_channel'' emojify_fallback]))"
  unfolding emojify_task_def by (rule sending_task_run)

lemma farming_task_run:
  "farming_task net api d w =
     (Inr (), w @
        (case timed_generation api of
           Inl e \<Rightarrow> [message_post (d_responseUrl d) ''in_channel'' farming_fallback]
         | Inr t \<Rightarrow>
             if send_succeeds net (length w)
             then [message_post (d_responseUrl d) ''in_channel'' (farming_format (d_userInput d) t)]
             else [message_post (d_responseUrl d) ''in_channel'' (farming_format (d_userInput d) t),
                   message_post (d_responseUrl d) ''in_channel'' farming_fallback]))"
  unfolding farming_task_def by (rule sending_task_run)

text \<open>The shape of the two sick-day tasks: each send is caught where it is made.\<close>

lemma caught_send:
  "io_try
     (io_bind (fetch net rq) (\<lambda>slackResponse.
        io_bind (response_text slackResponse) (\<lambda>responseText. io_return ())))
     (\<lambda>fetchErr. io_return ()) w = (Inr (), w @ [rq])"
  by (simp add: io_defs fetch_def response_text_def split: fetch_outcome.splits option.splits)

lemma caught_fallback:
  "io_try (io_bind (fetch net rq) (\<lambda>sent. io_return ())) (\<lambda>fetchErr. io_return ()) w =
     (Inr (), w @ [rq])"
  by (simp add: io_defs fetch_def split: fetch_outcome.splits)

lemma catching_task_run:
  "io_try
     (io_bind (io_lift g) (\<lambda>response.
      io_bind (io_lift (content_text response)) (\<lambda>text.
        io_try
          (io_bind (fetch net (rq text)) (\<lambda>slackResponse.
             io_bind (response_text slackResponse) (\<lambda>responseText. io_return ())))
          (\<lambda>fetchErr. io_return ()))))
     (\<lambda>err. io_try (io_bind (fetch net fb) (\<lambda>sent. io_return ())) (\<lambda>fetchErr. io_return ())) w =
   (Inr (), w @ [case (case g of Inl e \<Rightarrow> Inl e | Inr r \<Rightarrow> content_text r) of
                   Inl e \<Rightarrow> fb | Inr t \<Rightarrow> rq t])"
proof (cases "case g of Inl e \<Rightarrow> Inl e | Inr r \<Rightarrow> content_text r")
  case (Inl e)
  then show ?thesis
    using caught_fallback [of net fb w]
    by (auto simp: io_defs split: sum.splits)
next
  case (Inr t)
  then obtain r where r: "g = Inr r" "content_text r = Inr t"
    by (auto split: sum.splits)
  show ?thesis
    using caught_send [of net "rq t" w]
    by (simp add: r io_lift_def io_bind_def io_try_def)
qed

lemma sickbot_task_run:
  "sickbot_task net api d w =
     (Inr (), w @ [case timed_generation api of
                     Inl e \<Rightarrow> replacing_post (d_responseUrl d) ''in_channel'' sick_fallback
                   | Inr t \<Rightarrow> replacing_post (d_responseUrl d) ''in_channel'' t])"
  unfolding sickbot_task_def timed_generation_def replacing_post_def
  by (rule catching_task_run)

lemma legacy_task_run:
  "legacy_task net api d w =
     (case untimed_generation api of
        None \<Rightarrow> None
      | Some g \<Rightarrow>
          Some (Inr (), w @ [case g of
                               Inl e \<Rightarrow> message_post (d_responseUrl d) ''ephemeral'' sick_fallback
                             | Inr t \<Rightarrow> message_post (d_responseUrl d) ''ephemeral'' t]))"
proof (cases "await_api api")
  case None
  then show ?thesis by (simp add: legacy_task_def untimed_generation_def)
next
  case (Some g)
  then show ?thesis
    unfolding legacy_task_def untimed_generation_def message_post_def
    by (simp add: catching_task_run)
qed


lemma generation_settled:
  "untimed_generation (Resolves 1200 (Message [TextBlock ''Out sick (meetings).''])) =
     Some (Inr ''Out sick (meetings).'')"
  "untimed_generation (Resolves 50000 (Message [TextBlock ''Out sick (meetings).''])) =
     Some (Inr ''Out sick (meetings).'')"
  by code_simp+




text \<open>The counts, spelled out.\<close>

lemma sending_tasks_count:
  "\<exists>ps. emojify_task net api d w = (Inr (), w @ ps) \<and> 1 \<le> length ps \<and> length ps \<le> 2"
  "\<exists>ps. farming_task net api d w = (Inr (), w @ ps) \<and> 1 \<le> length ps \<and> length ps \<le> 2"
  by (auto simp: emojify_task_run farming_task_run split: sum.splits)

lemma legacy_task_pending: "legacy_task net Pending d w = None"
  by (simp add: legacy_task_def await_api_def)

text \<open>
  C2. In the three endpoints that race the call against the timer, a call that settles
  after 45000 milliseconds, or never, counts as failed: the task issues one POST, with
  the fallback text.
\<close>

lemma timed_generation_late:
  "45000 < t \<Longrightarrow> timed_generation (Resolves t r) = Inl (Error ''Claude API timeout after 45s'')"
  "45000 < t \<Longrightarrow> timed_generation (Rejects t e) = Inl (Error ''Claude API timeout after 45s'')"
  "timed_generation Pending = Inl (Error ''Claude API timeout after 45s'')"
  by (simp_all add: timed_generation_def race_timeout_def)

lemma timer_tasks_fall_back_after_45s:
  assumes "api = Pending \<or> (\<exists>t r. 45000 < t \<and> api = Resolves t r) \<or>
           (\<exists>t e. 45000 < t \<and> api = Rejects t e)"
  shows "emojify_task net api d w =
           (Inr (), w @ [message_post (d_responseUrl d) ''in_channel'' emojify_fallback])"
    and "farming_task net api d w =
           (Inr (), w @ [message_post (d_responseUrl d) ''in_channel'' farming_fallback])"
    and "sickbot_task net api d w =
           (Inr (), w @ [replacing_post (d_responseUrl d) ''in_channel'' sick_fallback])"
  using assms
  by (auto simp: emojify_task_run farming_task_run sickbot_task_run timed_generation_late)

text \<open>
  C2 fails in the first sick-day endpoint, which awaits the call with no timer: a call
  that resolves after 50 seconds has its text posted, not the fallback.
\<close>

theorem legacy_task_posts_late_generation:
  "legacy_task network_ok (Resolves 50000 (Message [TextBlock ''Out sick (meetings).'']))
     \<lparr>d_responseUrl = ''https://hooks.slack.com/commands/1'', d_userInput = ''meetings'',
      d_claudeKey = ''sk-ant-1''\<rparr> [] =
     Some (Inr (), [message_post ''https://hooks.slack.com/commands/1'' ''ephemeral''
                      ''Out sick (meetings).''])"
  by (simp add: legacy_task_run generation_settled)

section \<open>Properties of the acknowledgment\<close>

lemma hexdigits_read_back: "list_all (\<lambda>k. digit_val (hexdigit k) = k) [0..<16]"
  by code_simp

lemma digit_val_hexdigit: "k < 16 \<Longrightarrow> digit_val (hexdigit k) = k"
  using hexdigits_read_back by (simp add: list_all_iff)

lemma char_by_code: "(of_char c :: nat) = of_char d \<Longrightarrow> c = d"
  by (metis char_of_char)

lemma json_escape_read_back:
  "json_unescape (json_escape c @ rest) =
     map_option (\<lambda>st. (c # fst st, snd st)) (json_unescape rest)"
proof -
  let ?n = "of_char c :: nat"
  consider (quote) "?n = 0x22" | (backslash) "?n = 0x5C" | (b) "?n = 0x08" | (f) "?n = 0x0C"
    | (n) "?n = 0x0A" | (r) "?n = 0x0D" | (t) "?n = 0x09"
    | (control) "?n < 0x20" "?n \<noteq> 0x08" "?n \<noteq> 0x0C" "?n \<noteq> 0x0A" "?n \<noteq> 0x0D" "?n \<noteq> 0x09"
    | (plain) "?n \<noteq> 0x22" "?n \<noteq> 0x5C" "\<not> ?n < 0x20"
    by linarith
  then show ?thesis
  proof cases
    case quote
    then have "c = CHR 0x22" by (intro char_by_code) simp
    then show ?thesis by (simp add: json_escape_def json_escaped_def)
  next
    case backslash
    then have "c = CHR 0x5C" by (intro char_by_code) simp
    then show ?thesis by (simp add: json_escape_def json_escaped_def)
  next
    case b
    then have "c = CHR 0x08" by (intro char_by_code) simp
    then show ?thesis by (simp add: json_escape_def json_escaped_def)
  next
    case f
    then have "c = CHR 0x0C" by (intro char_by_code) simp
    then show ?thesis by (simp add: json_escape_def json_escaped_def)
  next
    case n
    then have "c = CHR 0x0A" by (intro char_by_code) simp
    then show ?thesis by (simp add: json_escape_def json_escaped_def)
  next
    case r
    then have "c = CHR 0x0D" by (intro char_by_code) simp
    then show ?thesis by (simp add: json_escape_def json_escaped_def)
  next
    case t
    then have "c = CHR 0x09" by (intro char_by_code) simp
    then show ?thesis by (simp add: json_escape_def json_escaped_def)
  next
    case control
    have hi: "?n div 16 < 16" and lo: "?n mod 16 < 16" using control(1) by simp_all
    have whole: "char_of (16 * (?n div 16) + ?n mod 16) = c" by simp
    have esc: "json_escape c =
        [CHR 0x5C, CHR ''u'', CHR ''0'', CHR ''0'', hexdigit (?n div 16), hexdigit (?n mod 16)]"
      using control by (simp add: json_escape_def Let_def)
    show ?thesis
      using hi lo
      by (simp add: esc digit_val_hexdigit [OF hi] digit_val_hexdigit [OF lo] whole)
  next
    case plain
    have ne: "c \<noteq> CHR 0x22" "c \<noteq> CHR 0x5C" using plain by auto
    have esc: "json_escape c = [c]" using plain by (simp add: json_escape_def Let_def)
    show ?thesis by (simp add: esc ne)
  qed
qed

lemma json_unescape_read_back:
  "json_unescape (concat (map json_escape s) @ CHR 0x22 # rest) = Some (s, rest)"
proof (induction s)
  case Nil
  show ?case by simp
next
  case (Cons c s)
  have "json_unescape (concat (map json_escape (c # s)) @ CHR 0x22 # rest) =
        json_unescape (json_escape c @ (concat (map json_escape s) @ CHR 0x22 # rest))"
    by simp
  also have "\<dots> = Some (c # s, rest)"
    by (simp only: json_escape_read_back Cons.IH) simp
  finally show ?case .
qed

lemma json_unquote_read_back: "json_unquote (JSON_quote s @ rest) = Some (s, rest)"
  by (simp add: json_unquote_def JSON_quote_def json_unescape_read_back)

lemma after_prefix_append: "after_prefix p (p @ s) = Some s"
  by (simp add: after_prefix_def)

lemma read_message_stringify:
  "read_message (JSON_stringify [(''response_type'', JString a), (''text'', JString t)]) =
     Some (a, t)"
proof -
  have shape: "JSON_stringify [(''response_type'', JString a), (''text'', JString t)] =
      (''{'' @ JSON_quote ''response_type'' @ '':'') @ JSON_quote a @
      (('','' @ JSON_quote ''text'' @ '':'') @ JSON_quote t @ ''}'')"
    by (simp add: JSON_stringify_def json_value_def)
  show ?thesis
    unfolding shape read_message_def
    by (simp only: after_prefix_append json_unquote_read_back option.case prod.case) simp
qed

lemma ack_read_back:
  "read_message (body (createAckResponse text responseType)) =
     Some (response_type_string (case responseType of None \<Rightarrow> ephemeral | Some t \<Rightarrow> t), text)"
  by (simp add: createAckResponse_def Response_new_def read_message_stringify)

text \<open>
  C10. \<open>createAckResponse\<close> answers 200 with the content type
  \<open>application/json; charset=utf-8\<close>; its body is the JSON text of
  \<open>{response_type, text}\<close>, from which the two strings are read back; and equal
  arguments give equal bodies.
\<close>

theorem ack_response_is_json_message:
  "status (createAckResponse text responseType) = 200 \<and>
   headers (createAckResponse text responseType) =
     [(''content-type'', ''application/json; charset=utf-8'')] \<and>
   body (createAckResponse text responseType) =
     JSON_stringify
       [(''response_type'', JString (response_type_string
           (case responseType of None \<Rightarrow> ephemeral | Some t \<Rightarrow> t))),
        (''text'', JString text)] \<and>
   read_message (body (createAckResponse text responseType)) =
     Some (response_type_string (case responseType of None \<Rightarrow> ephemeral | Some t \<Rightarrow> t), text) \<and>
   (text' = text \<and> responseType' = responseType \<longrightarrow>
      body (createAckResponse text' responseType') = body (createAckResponse text responseType))"
  by (simp add: createAckResponse_def Response_new_def read_message_stringify)

theorem ack_response_is_json_message_witness:
  "''_Translating to emoji..._'' = ''_Translating to emoji..._'' \<and>
   Some in_channel = Some in_channel \<and>
   status (createAckResponse ''_Translating to emoji..._'' (Some in_channel)) = 200 \<and>
   read_message (body (createAckResponse ''_Translating to emoji..._'' (Some in_channel))) =
     Some (''in_channel'', ''_Translating to emoji..._'') \<and>
   body (createAckResponse ''_Translating to emoji..._'' (Some in_channel)) =
     body (createAckResponse ''_Translating to emoji..._'' (Some in_channel))"
proof -
  note r = ack_response_is_json_message
    [of "''_Translating to emoji..._''" "Some in_channel" "''_Translating to emoji..._''"
        "Some in_channel"]
  have e: "''_Translating to emoji..._'' = ''_Translating to emoji..._'' \<and>
           Some in_channel = Some in_channel"
    by simp
  have m: "read_message (body (createAckResponse ''_Translating to emoji..._'' (Some in_channel))) =
     Some (''in_channel'', ''_Translating to emoji..._'')"
    using r [THEN conjunct2, THEN conjunct2, THEN conjunct2, THEN conjunct1]
    by (simp add: response_type_string_def)
  show ?thesis
    using e m r [THEN conjunct1]
      r [THEN conjunct2, THEN conjunct2, THEN conjunct2, THEN conjunct2, THEN mp, OF e]
    by (intro conjI) simp_all
qed

text \<open>Bodies are equal only for equal texts and equal response types.\<close>

lemma ack_bodies_differ:
  "body (createAckResponse text' responseType') = body (createAckResponse text responseType) \<Longrightarrow>
   text' = text \<and>
   response_type_string (case responseType' of None \<Rightarrow> ephemeral | Some t \<Rightarrow> t) =
   response_type_string (case responseType of None \<Rightarrow> ephemeral | Some t \<Rightarrow> t)"
  using ack_read_back [of "text'" "responseType'"] ack_read_back [of "text" "responseType"]
  by simp

end
